theory Spec2Isabelle
  imports Complex_Main "HOL-Library.Log_Nat"
begin

section \<open>Food Repository Viewer: the fetch, binning and aggregation pipeline\<close>

text \<open>
  The development embeds the body of the confirm button of
  \<^verbatim>\<open>Food_repositry_viewer_cloud.py\<close> (lines 77 to 175): the loop over the selected sample
  ids, the status check of each response, the merge-width histogram (lines 101 to 114), the
  five fixed retention-time ranges of the pie chart (lines 126 to 140) and the warning of
  the else branch (line 150).

  Numbers. The source computes in IEEE double precision. Line 105 decides how many bins
  the histogram has and where their edges lie, and there the rounding of every single
  operation counts: the model rounds each operation of line 105 to double precision. The
  sums of lines 107, 110 and 130, the quotient of line 111 and the midpoints of line 114 are
  taken in exact real arithmetic, which the source approximates up to its rounding error.
  The two places where the source leaves the finite numbers are kept: a missing table cell
  (pandas writes NaN) is \<^term>\<open>None\<close> in a column, and the quotient of the normalisation step
  has the values NaN and the two infinities.
\<close>

subsection \<open>Double precision\<close>

text \<open>
  The integer \<open>e\<close> with \<open>2^e \<le> x < 2^(e+1)\<close> for a positive \<open>x\<close>, from the number of binary digits
  (\<^term>\<open>bitlen\<close>) of the integer part of \<open>x\<close>, or of \<open>1 / x\<close> when \<open>x < 1\<close>.
\<close>

definition ilog2 :: "real \<Rightarrow> int" where
  "ilog2 x = (if 1 \<le> x then bitlen \<lfloor>x\<rfloor> - 1 else - bitlen (\<lceil>1 / x\<rceil> - 1))"

definition round_half_even :: "real \<Rightarrow> int" where
  "round_half_even x =
     (let f = \<lfloor>x\<rfloor>; r = x - of_int f
      in if r < 1 / 2 then f else if 1 / 2 < r then f + 1 else if even f then f else f + 1)"

text \<open>
  The result of one IEEE 754 binary64 operation whose exact value is \<open>x\<close>: the nearest number
  with 53 significant bits, ties to the even significand, with gradual underflow below
  \<open>2^-1022\<close>. Overflow is not modelled: the rounding keeps 53 bits at every magnitude.
\<close>

definition fl :: "real \<Rightarrow> real" where
  "fl x =
     (if x = 0 then 0
      else (let q = 2 powi (max (ilog2 \<bar>x\<bar>) (- 1022) - 52)
            in of_int (round_half_even (x / q)) * q))"

definition representable :: "real \<Rightarrow> bool" where
  "representable x = (fl x = x)"

subsection \<open>Payloads, data frames and errors\<close>

text \<open>
  \<^verbatim>\<open>response.json()\<close> gives a list of dictionaries. A dictionary is a map from field names
  to numbers; the model's input type has no non-numeric field values.
\<close>

type_synonym peak_record = "string \<rightharpoonup> real"
type_synonym peaklist = "peak_record list"

text \<open>A cell of a data-frame column: \<^term>\<open>None\<close> is pandas' NaN for a missing value.\<close>

type_synonym cell = "real option"

datatype py_error =
    KeyError string
  | JSONDecodeError
  | ValueError
  | ZeroDivisionError

text \<open>
  \<^verbatim>\<open>pd.DataFrame(peaklist)\<close> has one column for every key that occurs in some record; a
  record without the key has NaN there. \<^verbatim>\<open>data['rt']\<close> raises KeyError when no record has
  the key (in particular for the empty list).
\<close>

definition has_column :: "string \<Rightarrow> peaklist \<Rightarrow> bool" where
  "has_column k data = list_ex (\<lambda>r. r k \<noteq> None) data"

definition column :: "string \<Rightarrow> peaklist \<Rightarrow> py_error + cell list" where
  "column k data =
     (if has_column k data then Inr (map (\<lambda>r. r k) data) else Inl (KeyError k))"

fun dropna :: "cell list \<Rightarrow> real list" where
  "dropna [] = []"
| "dropna (None # cs) = dropna cs"
| "dropna (Some v # cs) = v # dropna cs"

text \<open>\<^verbatim>\<open>Series.min()\<close>, \<^verbatim>\<open>Series.max()\<close> and \<^verbatim>\<open>Series.sum()\<close> skip NaN; the minimum
  and maximum of a series without a number are NaN, its sum is 0.\<close>

definition series_min :: "cell list \<Rightarrow> cell" where
  "series_min cs = (case dropna cs of [] \<Rightarrow> None | v # vs \<Rightarrow> Some (Min (set (v # vs))))"

definition series_max :: "cell list \<Rightarrow> cell" where
  "series_max cs = (case dropna cs of [] \<Rightarrow> None | v # vs \<Rightarrow> Some (Max (set (v # vs))))"

definition series_sum :: "cell list \<Rightarrow> real" where
  "series_sum cs = sum_list (dropna cs)"

subsection \<open>The merge-width histogram (lines 105 to 114)\<close>

text \<open>
  \<^verbatim>\<open>np.arange(start, stop, step)\<close> on doubles. The length is the ceiling of the double
  quotient \<open>(stop - start) / step\<close> (no element when that is not positive); a zero step
  raises. The first element is \<open>start\<close>, the second is the double sum \<open>start + step\<close>, and the
  element \<open>i \<ge> 2\<close> is \<open>start + i * delta\<close> in doubles, where \<open>delta\<close> is the double difference of
  the second and the first element.
\<close>

definition arange :: "real \<Rightarrow> real \<Rightarrow> real \<Rightarrow> py_error + real list" where
  "arange start stop step =
     (if step = 0 then Inl ZeroDivisionError
      else (let len = nat \<lceil>fl (fl (stop - start) / step)\<rceil>;
                next = fl (start + step);
                delta = fl (next - start)
            in Inr (map (\<lambda>i. if i = 0 then start else if i = 1 then next
                             else fl (start + fl (real i * delta)))
                      [0..<len])))"

text \<open>Line 105; the stop value is the double sum of the maximum and the width. A NaN bound
  makes \<^verbatim>\<open>np.arange\<close> raise ValueError.\<close>

definition bin_edges :: "cell list \<Rightarrow> real \<Rightarrow> py_error + real list" where
  "bin_edges retention_time rt_merge_width =
     (case series_min retention_time of
        None \<Rightarrow> Inl ValueError
      | Some lo \<Rightarrow>
          (case series_max retention_time of
             None \<Rightarrow> Inl ValueError
           | Some hi \<Rightarrow> arange lo (fl (hi + rt_merge_width)) rt_merge_width))"


text \<open>
  \<^verbatim>\<open>np.digitize(x, bins)\<close> with increasing bins and the default \<^verbatim>\<open>right=False\<close> returns the
  index \<open>i\<close> with \<open>bins[i-1] \<le> x < bins[i]\<close>: the number of edges that are at most \<open>x\<close>. NaN
  sorts after every number, so its index is \<open>len(bins)\<close>. The edges of line 105 do not
  decrease, because the slider of line 39 gives a positive width.
\<close>

definition digitize :: "real list \<Rightarrow> cell \<Rightarrow> nat" where
  "digitize edges c =
     (case c of None \<Rightarrow> length edges | Some v \<Rightarrow> length (filter (\<lambda>b. b \<le> v) edges))"

text \<open>Line 106.\<close>

definition bin_indices :: "cell list \<Rightarrow> real list \<Rightarrow> nat list" where
  "bin_indices retention_time edges = map (digitize edges) retention_time"

text \<open>Line 107: \<^verbatim>\<open>intensity[bin_indices == i].sum()\<close> for \<open>i\<close> in \<open>range(1, len(bin_edges))\<close>.\<close>

definition masked :: "cell list \<Rightarrow> nat list \<Rightarrow> nat \<Rightarrow> cell list" where
  "masked intensity indices i = map fst (filter (\<lambda>p. snd p = i) (zip intensity indices))"

definition binned_intensity :: "cell list \<Rightarrow> nat list \<Rightarrow> real list \<Rightarrow> real list" where
  "binned_intensity intensity indices edges =
     map (\<lambda>i. series_sum (masked intensity indices i)) [1..<length edges]"

text \<open>Lines 110 and 111. Division of numpy scalars does not raise on a zero denominator:
  it gives NaN for \<open>0 / 0\<close> and an infinity with the sign of the numerator otherwise.\<close>

datatype fnum = Finite real | PosInf | NegInf | NaN

definition fdiv :: "real \<Rightarrow> real \<Rightarrow> fnum" where
  "fdiv a b =
     (if b \<noteq> 0 then Finite (a / b)
      else if a = 0 then NaN
      else if 0 < a then PosInf else NegInf)"

fun fmul :: "fnum \<Rightarrow> real \<Rightarrow> fnum" where
  "fmul (Finite v) k = Finite (v * k)"
| "fmul PosInf k = (if k = 0 then NaN else if 0 < k then PosInf else NegInf)"
| "fmul NegInf k = (if k = 0 then NaN else if 0 < k then NegInf else PosInf)"
| "fmul NaN k = NaN"

definition total_intensity :: "real list \<Rightarrow> real" where
  "total_intensity binned = sum_list binned"

definition relative_intensity :: "real list \<Rightarrow> fnum list" where
  "relative_intensity binned =
     map (\<lambda>val. fmul (fdiv val (total_intensity binned)) 100) binned"

text \<open>Line 114: \<^verbatim>\<open>(bin_edges[:-1] + bin_edges[1:]) / 2\<close>.\<close>

definition bin_centers :: "real list \<Rightarrow> real list" where
  "bin_centers edges = map (\<lambda>p. (fst p + snd p) / 2) (zip (butlast edges) (tl edges))"

subsection \<open>The five fixed ranges of the pie chart (lines 84 and 126 to 131)\<close>

definition bin_labels :: "string list" where
  "bin_labels = [''0-20 min'', ''20-40 min'', ''40-60 min'', ''60-80 min'', ''80+ min'']"

datatype bound = Fin real | np_inf

definition bins :: "bound list" where
  "bins = [Fin 0, Fin 20, Fin 40, Fin 60, Fin 80, np_inf]"

fun bound_le :: "bound \<Rightarrow> real \<Rightarrow> bool" where
  "bound_le (Fin b) v = (b \<le> v)"
| "bound_le np_inf v = False"

fun bound_gt :: "bound \<Rightarrow> real \<Rightarrow> bool" where
  "bound_gt (Fin b) v = (v < b)"
| "bound_gt np_inf v = True"

text \<open>\<^verbatim>\<open>pd.cut(x, bins, labels, right=False)\<close>: the label of the interval \<open>[bins[i], bins[i+1])\<close>
  that holds the value, NaN for a value in none of them and for NaN.\<close>

fun cut_value :: "bound list \<Rightarrow> string list \<Rightarrow> real \<Rightarrow> string option" where
  "cut_value (lo # hi # bs) (l # ls) v =
     (if bound_le lo v \<and> bound_gt hi v then Some l else cut_value (hi # bs) ls v)"
| "cut_value bs ls v = None"

definition pd_cut :: "cell list \<Rightarrow> bound list \<Rightarrow> string list \<Rightarrow> string option list" where
  "pd_cut retention_time bs ls =
     map (\<lambda>c. case c of None \<Rightarrow> None | Some v \<Rightarrow> cut_value bs ls v) retention_time"

text \<open>
  Line 130: \<^verbatim>\<open>data.groupby('RT_range')['intensity'].sum()\<close>. Rows whose key is NaN belong to
  no group. The model lists the groups that have a row; a pandas version that also lists
  the empty categories gives them the sum 0, which is what line 131 fills in.
\<close>

definition groupby_sum :: "string option list \<Rightarrow> cell list \<Rightarrow> string \<rightharpoonup> real" where
  "groupby_sum keys vals l =
     (if Some l \<in> set keys
      then Some (series_sum (map snd (filter (\<lambda>p. fst p = Some l) (zip keys vals))))
      else None)"

text \<open>Line 131: \<^verbatim>\<open>reindex(bin_labels, fill_value=0)\<close>.\<close>

definition reindex :: "(string \<rightharpoonup> real) \<Rightarrow> string list \<Rightarrow> real \<Rightarrow> (string \<times> real) list" where
  "reindex s ls fill_value = map (\<lambda>l. (l, case s l of None \<Rightarrow> fill_value | Some v \<Rightarrow> v)) ls"

definition intensity_sum :: "cell list \<Rightarrow> cell list \<Rightarrow> (string \<times> real) list" where
  "intensity_sum retention_time intensity =
     reindex (groupby_sum (pd_cut retention_time bins bin_labels) intensity) bin_labels 0"

subsection \<open>The loop over the selected samples (lines 80 to 175)\<close>

datatype detection_mode = pos | neg

record sample =
  fid :: string
  nameJa :: string
  catJa :: string

text \<open>What \<^verbatim>\<open>requests.get\<close> returns: the status code and the body, \<^term>\<open>None\<close> when the body
  is not JSON (then \<^verbatim>\<open>response.json()\<close> raises).\<close>

record response =
  status_code :: nat
  body :: "peaklist option"

definition json :: "response \<Rightarrow> py_error + peaklist" where
  "json r = (case body r of None \<Rightarrow> Inl JSONDecodeError | Some p \<Rightarrow> Inr p)"

text \<open>The remote service, as a function of the sample id and the detection mode of the
  endpoint of line 91.\<close>

type_synonym api = "string \<Rightarrow> detection_mode \<Rightarrow> response"

text \<open>Lines 87 and 88.\<close>

definition sample_name :: "sample list \<Rightarrow> string \<Rightarrow> string" where
  "sample_name sample_list_df f =
     (case filter (\<lambda>s. fid s = f) sample_list_df of [] \<Rightarrow> f | s # rest \<Rightarrow> nameJa s)"

definition title :: "sample list \<Rightarrow> string \<Rightarrow> string" where
  "title sample_list_df f = sample_name sample_list_df f @ '' (ID: '' @ f @ '')''"

text \<open>The arguments of \<^verbatim>\<open>go.Scatter\<close> (lines 117 to 122) and of \<^verbatim>\<open>go.Pie\<close> with its layout
  title (lines 134 to 146) that depend on the data.\<close>

record scatter =
  scatter_x :: "real list"
  scatter_y :: "fnum list"
  scatter_name :: string

record pie =
  pie_labels :: "string list"
  pie_values :: "real list"
  pie_sort :: bool
  pie_title :: string

text \<open>The warning of line 150 carries the sample id and the status code.\<close>

datatype warning = FetchFailed string nat

record loop_state =
  fig :: "scatter list"
  pie_charts :: "pie list"
  warnings :: "warning list"

text \<open>Lines 96 to 114 and 126 to 131 for one payload: the line series and the five sums.\<close>

definition engine ::
  "peaklist \<Rightarrow> real \<Rightarrow> py_error + (real list \<times> fnum list) \<times> (string \<times> real) list" where
  "engine data rt_merge_width =
     (case column ''rt'' data of
        Inl e \<Rightarrow> Inl e
      | Inr retention_time \<Rightarrow>
          (case column ''intensity'' data of
             Inl e \<Rightarrow> Inl e
           | Inr intensity \<Rightarrow>
               (case bin_edges retention_time rt_merge_width of
                  Inl e \<Rightarrow> Inl e
                | Inr edges \<Rightarrow>
                    Inr ((bin_centers edges,
                          relative_intensity
                            (binned_intensity intensity (bin_indices retention_time edges) edges)),
                         intensity_sum retention_time intensity))))"

text \<open>Lines 117 to 122 and lines 134 to 146.\<close>

definition scatter_trace :: "string \<Rightarrow> real list \<times> fnum list \<Rightarrow> scatter" where
  "scatter_trace t line = \<lparr>scatter_x = fst line, scatter_y = snd line, scatter_name = t\<rparr>"

definition pie_chart :: "string \<Rightarrow> (string \<times> real) list \<Rightarrow> pie" where
  "pie_chart t buckets =
     \<lparr>pie_labels = bin_labels, pie_values = map snd buckets, pie_sort = False, pie_title = t\<rparr>"

text \<open>One iteration of the loop of line 86. An exception leaves the loop: the only handler
  of the script catches FileNotFoundError.\<close>

definition process_sample ::
  "sample list \<Rightarrow> api \<Rightarrow> detection_mode \<Rightarrow> real \<Rightarrow> loop_state \<Rightarrow> string \<Rightarrow> py_error + loop_state" where
  "process_sample sample_list_df get mode rt_merge_width st f =
     (let response = get f mode in
      if status_code response = 200 then
        (case json response of
           Inl e \<Rightarrow> Inl e
         | Inr data \<Rightarrow>
             (case engine data rt_merge_width of
                Inl e \<Rightarrow> Inl e
              | Inr (line, buckets) \<Rightarrow>
                  Inr (st\<lparr>fig := fig st @ [scatter_trace (title sample_list_df f) line],
                          pie_charts := pie_charts st @
                            [pie_chart (title sample_list_df f) buckets]\<rparr>)))
      else Inr (st\<lparr>warnings := warnings st @ [FetchFailed f (status_code response)]\<rparr>))"

fun for_loop ::
  "(loop_state \<Rightarrow> string \<Rightarrow> py_error + loop_state) \<Rightarrow> loop_state \<Rightarrow> string list
     \<Rightarrow> py_error \<times> loop_state + loop_state" where
  "for_loop step st [] = Inr st"
| "for_loop step st (f # fs) =
     (case step st f of Inl e \<Rightarrow> Inl (e, st) | Inr st' \<Rightarrow> for_loop step st' fs)"

text \<open>
  What the page shows after the button of line 73 with a non-empty selection, given in the
  order the loop visits it: the line chart, the pie charts and the warnings when the loop
  ends (lines 152 to 175), or the uncaught exception with the warnings issued before it.
\<close>

datatype outcome =
    Rendered "scatter list" "pie list" "warning list"
  | Uncaught py_error "warning list"

definition confirm ::
  "sample list \<Rightarrow> api \<Rightarrow> detection_mode \<Rightarrow> real \<Rightarrow> string list \<Rightarrow> outcome" where
  "confirm sample_list_df get mode rt_merge_width selected_fids =
     (case for_loop (process_sample sample_list_df get mode rt_merge_width)
             \<lparr>fig = [], pie_charts = [], warnings = []\<rparr> selected_fids of
        Inl (e, st) \<Rightarrow> Uncaught e (warnings st)
      | Inr st \<Rightarrow> Rendered (fig st) (pie_charts st) (warnings st))"

subsection \<open>Payloads with both columns\<close>

text \<open>A response with status 200 whose body is a JSON list in which some record has the
  field \<^verbatim>\<open>rt\<close> and some record has the field \<^verbatim>\<open>intensity\<close>: the frame of line 97 then
  has both columns that lines 101 and 102 read.\<close>

definition well_formed :: "response \<Rightarrow> bool" where
  "well_formed r =
     (case body r of
        None \<Rightarrow> False
      | Some data \<Rightarrow> has_column ''rt'' data \<and> has_column ''intensity'' data)"

text \<open>The warnings that line 150 issues for a list of sample ids, and the ids of the list
  whose response has status 200.\<close>

definition fetch_warnings :: "api \<Rightarrow> detection_mode \<Rightarrow> string list \<Rightarrow> warning list" where
  "fetch_warnings get mode fids =
     map (\<lambda>f. FetchFailed f (status_code (get f mode)))
       (filter (\<lambda>f. status_code (get f mode) \<noteq> 200) fids)"

definition fetched :: "api \<Rightarrow> detection_mode \<Rightarrow> string list \<Rightarrow> string list" where
  "fetched get mode fids = filter (\<lambda>f. status_code (get f mode) = 200) fids"

subsection \<open>The composition buckets in the words of the specification\<close>

text \<open>
  Section 4.4 (b) of the specification: the sum of a range \<open>[lo, hi)\<close> is the sum of the
  intensities of the points whose retention time lies in the range. These two definitions
  follow that wording and are compared with \<^term>\<open>intensity_sum\<close> below.
\<close>

definition in_range :: "real \<Rightarrow> bound \<Rightarrow> cell \<Rightarrow> bool" where
  "in_range lo hi c = (case c of None \<Rightarrow> False | Some v \<Rightarrow> lo \<le> v \<and> bound_gt hi v)"

definition spec_bucket_sum :: "real \<Rightarrow> bound \<Rightarrow> cell list \<Rightarrow> cell list \<Rightarrow> real" where
  "spec_bucket_sum lo hi retention_time intensity =
     series_sum (map snd (filter (\<lambda>p. in_range lo hi (fst p)) (zip retention_time intensity)))"

section \<open>Properties\<close>

subsection \<open>Rounding to double precision\<close>

text \<open>
  The exponent that \<^term>\<open>ilog2\<close> computes is the binary exponent of its argument, so
  \<^term>\<open>fl\<close> moves a number by at most half a unit in the last place, which in the normal
  range is a relative error of at most \<open>2^-53\<close>. The values at the end are those of the
  doubles written \<^verbatim>\<open>0.1\<close>, \<^verbatim>\<open>0.2\<close> and \<^verbatim>\<open>0.1 + 0.2\<close>.
\<close>

lemma ilog2_bounds:
  assumes "0 < x"
  shows "2 powi (ilog2 x) \<le> x" and "x < 2 powi (ilog2 x + 1)"
proof -
  have both: "2 powi (ilog2 x) \<le> x \<and> x < 2 powi (ilog2 x + 1)"
  proof (cases "1 \<le> x")
    case True
    define n where "n = nat \<lfloor>x\<rfloor>"
    define k where "k = floorlog 2 n"
    have n1: "1 \<le> n" using True unfolding n_def by linarith
    then have n0: "0 < n" by simp
    from floorlog_bounds[OF n0, of 2] have b: "2 ^ (k - 1) \<le> n" "n < 2 ^ k"
      unfolding k_def by simp_all
    have k1: "1 \<le> k" using b(2) n1 by (cases k) simp_all
    have e: "ilog2 x = int (k - 1)"
      using True k1 by (simp add: ilog2_def bitlen_def n_def k_def)
    have "real n \<le> x" using True unfolding n_def by simp
    moreover have "x < real n + 1" using True unfolding n_def by linarith
    moreover have "(2::real) ^ (k - 1) \<le> real n"
      using b(1) by (metis of_nat_le_iff of_nat_numeral of_nat_power)
    moreover have "real n + 1 \<le> (2::real) ^ k"
    proof -
      from b(2) have "Suc n \<le> 2 ^ k" by simp
      then have "real (Suc n) \<le> real (2 ^ k)" by (simp only: of_nat_le_iff)
      then show ?thesis by simp
    qed
    ultimately have "2 ^ (k - 1) \<le> x" "x < 2 ^ k" by linarith+
    moreover have "int (k - 1) + 1 = int k" using k1 by simp
    moreover have "(2::real) powi int (k - 1) = 2 ^ (k - 1)" "(2::real) powi int k = 2 ^ k"
      by (simp_all only: power_int_of_nat)
    ultimately show ?thesis unfolding e by (simp only:)
  next
    case False
    define y where "y = 1 / x"
    define m where "m = nat (\<lceil>y\<rceil> - 1)"
    define k where "k = floorlog 2 m"
    have y1: "1 < y" using False assms unfolding y_def by simp
    then have c2: "2 \<le> \<lceil>y\<rceil>" by linarith
    then have m0: "0 < m" unfolding m_def by simp
    have rm: "real m = of_int \<lceil>y\<rceil> - 1" using c2 unfolding m_def by simp
    from floorlog_bounds[OF m0, of 2] have b: "2 ^ (k - 1) \<le> m" "m < 2 ^ k"
      unfolding k_def by simp_all
    have k1: "1 \<le> k" using b(2) m0 by (cases k) simp_all
    have e: "ilog2 x = - int k"
      using False by (simp add: ilog2_def bitlen_def y_def m_def k_def)
    have "real m < y" unfolding rm by linarith
    moreover have "y \<le> real m + 1" unfolding rm by simp
    moreover have "(2::real) ^ (k - 1) \<le> real m"
      using b(1) by (metis of_nat_le_iff of_nat_numeral of_nat_power)
    moreover have "real m + 1 \<le> (2::real) ^ k"
    proof -
      from b(2) have "Suc m \<le> 2 ^ k" by simp
      then have "real (Suc m) \<le> real (2 ^ k)" by (simp only: of_nat_le_iff)
      then show ?thesis by simp
    qed
    ultimately have yl: "2 ^ (k - 1) < y" and yu: "y \<le> 2 ^ k" by linarith+
    have x: "x = 1 / y" using assms by (simp add: y_def)
    have "1 / 2 ^ k \<le> x" unfolding x using yu y1 by (simp add: frac_le)
    moreover have "x < 1 / 2 ^ (k - 1)" unfolding x using yl by (simp add: frac_less2)
    moreover have "(2::real) powi (- int k) = 1 / 2 ^ k"
      by (simp only: power_int_minus power_int_of_nat inverse_eq_divide)
    moreover have "(2::real) powi (- int k + 1) = 1 / 2 ^ (k - 1)"
    proof -
      have "- int k + 1 = - int (k - 1)" using k1 by simp
      then show ?thesis
        by (simp only: power_int_minus power_int_of_nat inverse_eq_divide)
    qed
    ultimately show ?thesis unfolding e by simp
  qed
  from both show "2 powi (ilog2 x) \<le> x" and "x < 2 powi (ilog2 x + 1)" by simp_all
qed

lemma round_half_even_error: "\<bar>of_int (round_half_even y) - y\<bar> \<le> 1 / 2"
  unfolding round_half_even_def Let_def by (auto; linarith)

lemma fl_error:
  assumes "x \<noteq> 0"
  shows "\<bar>fl x - x\<bar> \<le> 2 powi (max (ilog2 \<bar>x\<bar>) (- 1022) - 52) / 2"
proof -
  define q :: real where "q = 2 powi (max (ilog2 \<bar>x\<bar>) (- 1022) - 52)"
  have q0: "0 < q" unfolding q_def by simp
  have "fl x - x = (of_int (round_half_even (x / q)) - x / q) * q"
    using assms q0 by (simp add: fl_def q_def[symmetric] Let_def algebra_simps)
  then have "\<bar>fl x - x\<bar> = \<bar>of_int (round_half_even (x / q)) - x / q\<bar> * q"
    using q0 by (simp add: abs_mult)
  also have "\<dots> \<le> 1 / 2 * q"
    using round_half_even_error[of "x / q"] q0 by (intro mult_right_mono) simp_all
  finally show ?thesis unfolding q_def by simp
qed

lemma fl_relative_error:
  assumes "2 powi (- 1022) \<le> \<bar>x\<bar>"
  shows "\<bar>fl x - x\<bar> \<le> 2 powi (- 53) * \<bar>x\<bar>"
proof -
  have pos: "0 < \<bar>x\<bar>" using assms by (rule less_le_trans[rotated]) simp
  then have x0: "x \<noteq> 0" by simp
  define e where "e = ilog2 \<bar>x\<bar>"
  have lt: "(2::real) powi (- 1022) < 2 powi (e + 1)"
    using assms ilog2_bounds(2)[OF pos] unfolding e_def by linarith
  have "- 1022 < e + 1"
  proof (rule ccontr)
    assume "\<not> - 1022 < e + 1"
    then have "e + 1 \<le> - 1022" by simp
    then have "(2::real) powi (e + 1) \<le> 2 powi (- 1022)"
      by (rule power_int_increasing) simp
    with lt show False by simp
  qed
  then have m: "max e (- 1022) = e" by simp
  have "\<bar>fl x - x\<bar> \<le> 2 powi (e - 52) / 2"
    using fl_error[OF x0] unfolding e_def[symmetric] m .
  also have "\<dots> = 2 powi (- 53) * 2 powi e"
  proof -
    have "e - 52 = ((- 53) + e) + 1" by simp
    then have "(2::real) powi (e - 52) = 2 powi (((- 53) + e) + 1)" by (simp only:)
    also have "\<dots> = 2 powi ((- 53) + e) * 2 powi 1" by (rule power_int_add) simp
    also have "(2::real) powi ((- 53) + e) = 2 powi (- 53) * 2 powi e"
      by (rule power_int_add) simp
    finally have "(2::real) powi (e - 52) = 2 powi (- 53) * 2 powi e * 2"
      by (simp only: power_int_1_right)
    then show ?thesis by simp
  qed
  also have "\<dots> \<le> 2 powi (- 53) * \<bar>x\<bar>"
    using ilog2_bounds(1)[OF pos] unfolding e_def by (intro mult_left_mono) simp_all
  finally show ?thesis .
qed

lemma fl_examples:
  "fl (1/10) = 3602879701896397 / 36028797018963968"
  "fl (1/5) = 3602879701896397 / 18014398509481984"
  "fl (1/2) = 1/2"
  "fl (fl (1/10) + fl (1/5)) = 1351079888211149 / 4503599627370496"
  by code_simp+

subsection \<open>The bin edges\<close>



lemma series_min_max:
  assumes "dropna cs \<noteq> []"
  shows "series_min cs = Some (Min (set (dropna cs)))" "series_max cs = Some (Max (set (dropna cs)))"
  using assms by (auto simp: series_min_def series_max_def split: list.splits)

lemma fl_one: "fl 1 = 1"
  by code_simp

lemma bin_edges_Inr:
  assumes "dropna cs \<noteq> []" and "w \<noteq> 0"
  shows "\<exists>edges. bin_edges cs w = Inr edges"
  using assms by (simp add: bin_edges_def series_min_max arange_def Let_def)

lemma bin_edges_hd:
  assumes "dropna cs \<noteq> []" and "bin_edges cs w = Inr edges" and "edges \<noteq> []"
  shows "hd edges = Min (set (dropna cs))"
proof -
  from assms(1,2) obtain len f where e: "edges = map f [0..<len]"
    and f: "f 0 = Min (set (dropna cs))"
    by (auto simp: bin_edges_def series_min_max arange_def Let_def split: if_splits)
  from e assms(3) have "0 < len" by (cases len) auto
  then show ?thesis unfolding e using f by (simp add: upt_rec[of 0] hd_map)
qed







subsection \<open>Normalisation\<close>

lemma sum_list_scaled: "sum_list (map (\<lambda>val. val / t * 100) xs) = sum_list xs / t * (100::real)"
  by (induction xs) (simp_all add: add_divide_distrib distrib_right)

lemma relative_intensity_finite:
  assumes "total_intensity binned \<noteq> 0"
  shows "relative_intensity binned = map (\<lambda>val. Finite (val / total_intensity binned * 100)) binned"
  using assms by (simp add: relative_intensity_def fdiv_def)

text \<open>
  Claim C2. When the total of the bin sums is positive, every relative intensity of line 111
  is a finite number and the relative intensities add up to 100 (in exact arithmetic, to
  which the floating tolerance of the claim refers).
\<close>

theorem C2_relative_sum:
  assumes "0 < total_intensity binned"
  shows "relative_intensity binned
           = map Finite (map (\<lambda>val. val / total_intensity binned * 100) binned)
         \<and> sum_list (map (\<lambda>val. val / total_intensity binned * 100) binned) = 100"
proof -
  have ne: "total_intensity binned \<noteq> 0" using assms by simp
  have "sum_list (map (\<lambda>val. val / total_intensity binned * 100) binned)
          = sum_list binned / total_intensity binned * 100"
    by (rule sum_list_scaled)
  also have "\<dots> = 100" using ne by (simp add: total_intensity_def)
  finally show ?thesis using relative_intensity_finite[OF ne] by simp
qed

text \<open>An instance of C2: three points, width 8, edges 5, 13, 21, 29 and sums 10, 20, 30.\<close>

theorem C2_relative_sum_witness:
  "0 < total_intensity (binned_intensity [Some 10, Some 20, Some 30]
         (bin_indices [Some 5, Some 15, Some 25] [5, 13, 21, 29]) [5, 13, 21, 29])
   \<and> bin_edges [Some 5, Some 15, Some 25] 8 = Inr [5, 13, 21, 29]
   \<and> relative_intensity (binned_intensity [Some 10, Some 20, Some 30]
         (bin_indices [Some 5, Some 15, Some 25] [5, 13, 21, 29]) [5, 13, 21, 29])
       = [Finite (50/3), Finite (100/3), Finite 50]
   \<and> (50/3 + 100/3 + 50 :: real) = 100"
proof -
  have b: "binned_intensity [Some 10, Some 20, Some 30]
         (bin_indices [Some 5, Some 15, Some 25] [5, 13, 21, 29]) [5, 13, 21, 29] = [10, 20, 30]"
    by code_simp
  have h: "0 < total_intensity (binned_intensity [Some 10, Some 20, Some 30]
         (bin_indices [Some 5, Some 15, Some 25] [5, 13, 21, 29]) [5, 13, 21, 29])"
    unfolding b by (simp add: total_intensity_def)
  have e: "bin_edges [Some 5, Some 15, Some 25] 8 = Inr [5, 13, 21, 29]" by code_simp
  from C2_relative_sum[OF h] e h show ?thesis unfolding b by (simp add: total_intensity_def)
qed

text \<open>
  Claim C5 asks for a defined value in every bin when the total of the bin sums is 0. Lines
  110 and 111 divide without a test of the denominator: two points of intensity 0 give two
  bins whose relative intensity is NaN, and these go into the chart.
\<close>

theorem C5_zero_total_counterexample:
  "engine [[''rt'' \<mapsto> 0, ''intensity'' \<mapsto> 0], [''rt'' \<mapsto> 1, ''intensity'' \<mapsto> 0]] (1/2)
     = Inr (([1/4, 3/4], [NaN, NaN]),
            [(''0-20 min'', 0), (''20-40 min'', 0), (''40-60 min'', 0), (''60-80 min'', 0),
             (''80+ min'', 0)])"
  by code_simp

text \<open>
  Claim C5 as amended: when the total of the bin sums is 0, the relative intensity of a bin
  is NaN if its sum is 0 and an infinity of the sign of its sum otherwise; no bin gets a
  finite value.
\<close>

theorem C5_zero_total:
  assumes "total_intensity binned = 0"
  shows "relative_intensity binned
           = map (\<lambda>val. if val = 0 then NaN else if 0 < val then PosInf else NegInf) binned"
  using assms by (simp add: relative_intensity_def fdiv_def)

theorem C5_zero_total_witness:
  "total_intensity [0, 0] = 0 \<and> relative_intensity [0, 0] = [NaN, NaN]"
  using C5_zero_total[of "[0, 0]"] by (simp add: total_intensity_def)

subsection \<open>A series with a single retention time\<close>

text \<open>
  Claim C6 asks for at least two edges when the minimum and the maximum coincide. Line 105
  then calls \<^verbatim>\<open>np.arange(min, min + w, w)\<close> and has no guard: for the single retention time 5
  and the width 0.5 the sum \<open>5.5\<close> is exact, the quotient is 1, and the edge sequence is the
  one edge 5: the histogram has no bin and the line series is empty.
\<close>

theorem C6_single_point_counterexample:
  "bin_edges [Some 5] (1/2) = Inr [5] \<and> \<not> 2 \<le> length [5::real]
   \<and> engine [[''rt'' \<mapsto> 5, ''intensity'' \<mapsto> 7]] (1/2)
     = Inr (([], []),
            [(''0-20 min'', 7), (''20-40 min'', 0), (''40-60 min'', 0), (''60-80 min'', 0),
             (''80+ min'', 0)])"
  by code_simp

text \<open>
  Claim C6 as amended: when the minimum and the maximum of the series coincide, the width is
  a non-zero double and the sum of the minimum and the width is computed without rounding,
  the edge sequence is the single edge \<open>min\<close> and the histogram has no bin.
\<close>

theorem C6_single_point:
  assumes "series_min retention_time = Some v" and "series_max retention_time = Some v"
    and "w \<noteq> 0" and "representable w" and "representable (v + w)"
  shows "bin_edges retention_time w = Inr [v]
         \<and> binned_intensity intensity (bin_indices retention_time [v]) [v] = []"
  using assms
  by (simp add: bin_edges_def arange_def representable_def fl_one binned_intensity_def)

text \<open>An instance of the amended C6: two points at 5 and the width 0.5.\<close>

theorem C6_single_point_witness:
  "series_min [Some 5, Some 5] = Some 5 \<and> series_max [Some 5, Some 5] = Some 5
   \<and> (1/2::real) \<noteq> 0 \<and> representable (1/2) \<and> representable (5 + 1/2)
   \<and> bin_edges [Some 5, Some 5] (1/2) = Inr [5]"
proof -
  have 1: "series_min [Some 5, Some 5] = Some 5" by (simp add: series_min_def)
  have 2: "series_max [Some 5, Some 5] = Some 5" by (simp add: series_max_def)
  have 3: "(1/2::real) \<noteq> 0" by simp
  have 4: "representable (1/2)" by code_simp
  have 5: "representable (5 + 1/2)" by code_simp
  from C6_single_point[OF 1 2 3 4 5] 1 2 3 4 5 show ?thesis by blast
qed

text \<open>With rounding the same series can get two edges: at the default width of the slider
  the double sum \<open>5 + w\<close> lies above the exact sum and the double quotient is above 1.\<close>

lemma single_point_two_edges:
  "bin_edges [Some 5] (fl (1/5)) = Inr [5, 5854679515581645 / 1125899906842624]"
  by code_simp

subsection \<open>Points on the last edge\<close>

text \<open>
  Which points line 107 counts. A point below the last edge gets an index between 1 and
  \<open>len(bin_edges) - 1\<close> and is counted in the bin of that index, and in no other, since it has
  one index. A point that is not below the last edge gets the index \<open>len(bin_edges)\<close>, which
  line 107 never visits.
\<close>

lemma digitize_past_all_edges:
  assumes "\<And>b. b \<in> set edges \<Longrightarrow> b \<le> v"
  shows "digitize edges (Some v) = length edges"
  using assms by (simp add: digitize_def)

lemma digitize_inside:
  assumes "edges \<noteq> []" and "hd edges \<le> v" and "v < last edges"
  shows "digitize edges (Some v) \<in> set [1..<length edges]"
proof -
  obtain e es where es: "edges = e # es" using assms(1) by (cases edges) auto
  with assms(2) have "e \<le> v" by simp
  then have low: "1 \<le> digitize edges (Some v)" by (simp add: digitize_def es)
  have "last edges \<in> set edges" using assms(1) by simp
  moreover have "\<not> last edges \<le> v" using assms(3) by simp
  ultimately have "length (filter (\<lambda>b. b \<le> v) edges) < length edges"
    by (rule length_filter_less)
  then have "digitize edges (Some v) < length edges" by (simp add: digitize_def)
  with low show ?thesis by simp
qed

lemma point_below_last_edge_counted:
  assumes "dropna retention_time \<noteq> []"
    and "bin_edges retention_time w = Inr edges" and "edges \<noteq> []"
    and "v \<in> set (dropna retention_time)" and "v < last edges"
  shows "digitize edges (Some v) \<in> set [1..<length edges]"
proof -
  have "hd edges = Min (set (dropna retention_time))"
    by (rule bin_edges_hd[OF assms(1,2,3)])
  moreover have "Min (set (dropna retention_time)) \<le> v" using assms(4) by simp
  ultimately have "hd edges \<le> v" by simp
  from digitize_inside[OF assms(3) this assms(5)] show ?thesis .
qed

lemma point_on_last_edge_dropped:
  assumes "sorted edges" and "edges \<noteq> []" and "last edges \<le> v"
  shows "digitize edges (Some v) = length edges"
    and "digitize edges (Some v) \<notin> set [1..<length edges]"
proof -
  have "b \<le> v" if "b \<in> set edges" for b
  proof -
    from that obtain i where i: "i < length edges" and b: "b = edges ! i"
      by (auto simp: in_set_conv_nth)
    have "edges ! i \<le> edges ! (length edges - 1)"
      using assms(1) i by (intro sorted_nth_mono) simp_all
    also have "\<dots> = last edges" using assms(2) by (simp add: last_conv_nth)
    finally show ?thesis using b assms(3) by simp
  qed
  then show d: "digitize edges (Some v) = length edges" by (rule digitize_past_all_edges)
  show "digitize edges (Some v) \<notin> set [1..<length edges]" unfolding d by simp
qed

text \<open>
  Claim C3 says that every point of the series is counted in exactly one bin. The bins of
  line 106 are right-open and line 107 only visits the indices \<open>1, \<dots>, len(bin_edges) - 1\<close>, so
  a point that lies on the last edge gets the index \<open>len(bin_edges)\<close> and is counted nowhere.
  The last edge of line 105 can be the maximum itself. For the retention times 0 and 1 with intensities 3 and 5 and width 0.5: the edges are 0, 0.5, 1,
  the indices are 1 and 3, the bin sums are 3 and 0, and the relative intensities are 100 and
  0, while the pie chart of the same sample counts both points (sum 8).
\<close>

theorem C3_dropped_point:
  "bin_edges [Some 0, Some 1] (1/2) = Inr [0, 1/2, 1]
   \<and> bin_indices [Some 0, Some 1] [0, 1/2, 1] = [1, 3]
   \<and> binned_intensity [Some 3, Some 5] [1, 3] [0, 1/2, 1] = [3, 0]
   \<and> engine [[''rt'' \<mapsto> 0, ''intensity'' \<mapsto> 3], [''rt'' \<mapsto> 1, ''intensity'' \<mapsto> 5]] (1/2)
     = Inr (([1/4, 3/4], [Finite 100, Finite 0]),
            [(''0-20 min'', 8), (''20-40 min'', 0), (''40-60 min'', 0), (''60-80 min'', 0),
             (''80+ min'', 0)])"
  by code_simp

subsection \<open>The composition buckets\<close>

lemma cut_value_labels:
  "cut_value bins bin_labels v = Some ''0-20 min'' \<longleftrightarrow> 0 \<le> v \<and> v < 20"
  "cut_value bins bin_labels v = Some ''20-40 min'' \<longleftrightarrow> 20 \<le> v \<and> v < 40"
  "cut_value bins bin_labels v = Some ''40-60 min'' \<longleftrightarrow> 40 \<le> v \<and> v < 60"
  "cut_value bins bin_labels v = Some ''60-80 min'' \<longleftrightarrow> 60 \<le> v \<and> v < 80"
  "cut_value bins bin_labels v = Some ''80+ min'' \<longleftrightarrow> 80 \<le> v"
  by (auto simp: bins_def bin_labels_def)

lemma filter_zip_map:
  "map snd (filter (\<lambda>p. fst p = k) (zip (map g xs) ys))
     = map snd (filter (\<lambda>p. g (fst p) = k) (zip xs ys))"
proof (induction xs arbitrary: ys)
  case Nil
  show ?case by simp
next
  case (Cons x xs)
  then show ?case by (cases ys) simp_all
qed

lemma filter_zip_absent:
  assumes "k \<notin> set keys"
  shows "filter (\<lambda>p. fst p = k) (zip keys vals) = []"
  using assms by (auto simp: filter_empty_conv dest: set_zip_leftD)

lemma reindexed_value:
  "(case groupby_sum keys vals l of None \<Rightarrow> 0 | Some v \<Rightarrow> v)
     = series_sum (map snd (filter (\<lambda>p. fst p = Some l) (zip keys vals)))"
  by (simp add: groupby_sum_def filter_zip_absent series_sum_def)

lemma bucket_value:
  assumes "\<And>v. cut_value bins bin_labels v = Some l \<longleftrightarrow> lo \<le> v \<and> bound_gt hi v"
  shows "(case groupby_sum (pd_cut retention_time bins bin_labels) intensity l of
            None \<Rightarrow> 0 | Some v \<Rightarrow> v)
         = spec_bucket_sum lo hi retention_time intensity"
proof -
  have "(\<lambda>p. (case fst p of None \<Rightarrow> None | Some v \<Rightarrow> cut_value bins bin_labels v) = Some l)
        = (\<lambda>p :: cell \<times> cell. in_range lo hi (fst p))"
    by (auto simp: fun_eq_iff in_range_def assms split: option.splits)
  then show ?thesis
    unfolding reindexed_value pd_cut_def filter_zip_map spec_bucket_sum_def by simp
qed

lemma map_bin_labels:
  "map f bin_labels = [f ''0-20 min'', f ''20-40 min'', f ''40-60 min'', f ''60-80 min'', f ''80+ min'']"
  by (simp add: bin_labels_def)

lemma intensity_sum_buckets:
  "intensity_sum retention_time intensity =
     [(''0-20 min'', spec_bucket_sum 0 (Fin 20) retention_time intensity),
      (''20-40 min'', spec_bucket_sum 20 (Fin 40) retention_time intensity),
      (''40-60 min'', spec_bucket_sum 40 (Fin 60) retention_time intensity),
      (''60-80 min'', spec_bucket_sum 60 (Fin 80) retention_time intensity),
      (''80+ min'', spec_bucket_sum 80 np_inf retention_time intensity)]"
proof -
  let ?g = "groupby_sum (pd_cut retention_time bins bin_labels) intensity"
  have 1: "(case ?g ''0-20 min'' of None \<Rightarrow> 0 | Some v \<Rightarrow> v)
             = spec_bucket_sum 0 (Fin 20) retention_time intensity"
    by (rule bucket_value) (simp add: cut_value_labels)
  have 2: "(case ?g ''20-40 min'' of None \<Rightarrow> 0 | Some v \<Rightarrow> v)
             = spec_bucket_sum 20 (Fin 40) retention_time intensity"
    by (rule bucket_value) (simp add: cut_value_labels)
  have 3: "(case ?g ''40-60 min'' of None \<Rightarrow> 0 | Some v \<Rightarrow> v)
             = spec_bucket_sum 40 (Fin 60) retention_time intensity"
    by (rule bucket_value) (simp add: cut_value_labels)
  have 4: "(case ?g ''60-80 min'' of None \<Rightarrow> 0 | Some v \<Rightarrow> v)
             = spec_bucket_sum 60 (Fin 80) retention_time intensity"
    by (rule bucket_value) (simp add: cut_value_labels)
  have 5: "(case ?g ''80+ min'' of None \<Rightarrow> 0 | Some v \<Rightarrow> v)
             = spec_bucket_sum 80 np_inf retention_time intensity"
    by (rule bucket_value) (simp add: cut_value_labels)
  show ?thesis
    unfolding intensity_sum_def reindex_def map_bin_labels by (simp only: 1 2 3 4 5)
qed

lemma spec_bucket_sum_Nil [simp]: "spec_bucket_sum lo hi [] ys = 0" "spec_bucket_sum lo hi xs [] = 0"
  by (simp_all add: spec_bucket_sum_def series_sum_def)




text \<open>
  Claim C4. For every pair of columns the transform of lines 126 to 131 returns five entries,
  one for each label of line 84 in that order; the value of an entry is the sum of the
  intensities of the points in its range, not divided by anything, and it is 0 for a range
  that holds no point. The pie chart of lines 134 to 140 gets the labels and the values in
  this order and has \<^verbatim>\<open>sort=False\<close>.
\<close>

theorem C4_composition_buckets:
  "intensity_sum retention_time intensity =
     [(''0-20 min'', spec_bucket_sum 0 (Fin 20) retention_time intensity),
      (''20-40 min'', spec_bucket_sum 20 (Fin 40) retention_time intensity),
      (''40-60 min'', spec_bucket_sum 40 (Fin 60) retention_time intensity),
      (''60-80 min'', spec_bucket_sum 60 (Fin 80) retention_time intensity),
      (''80+ min'', spec_bucket_sum 80 np_inf retention_time intensity)]
   \<and> length (intensity_sum retention_time intensity) = 5
   \<and> map fst (intensity_sum retention_time intensity) = bin_labels
   \<and> pie_chart t (intensity_sum retention_time intensity) =
       \<lparr>pie_labels = [''0-20 min'', ''20-40 min'', ''40-60 min'', ''60-80 min'', ''80+ min''],
        pie_values =
          [spec_bucket_sum 0 (Fin 20) retention_time intensity,
           spec_bucket_sum 20 (Fin 40) retention_time intensity,
           spec_bucket_sum 40 (Fin 60) retention_time intensity,
           spec_bucket_sum 60 (Fin 80) retention_time intensity,
           spec_bucket_sum 80 np_inf retention_time intensity],
        pie_sort = False, pie_title = t\<rparr>
   \<and> (\<not> list_ex (in_range lo hi) retention_time
        \<longrightarrow> spec_bucket_sum lo hi retention_time intensity = 0)"
proof -
  have empty: "spec_bucket_sum lo hi retention_time intensity = 0"
    if "\<not> list_ex (in_range lo hi) retention_time"
  proof -
    have "filter (\<lambda>p. in_range lo hi (fst p)) (zip retention_time intensity) = []"
      using that by (auto simp: filter_empty_conv list_ex_iff dest: set_zip_leftD)
    then show ?thesis by (simp add: spec_bucket_sum_def series_sum_def)
  qed
  show ?thesis
    unfolding intensity_sum_buckets pie_chart_def using empty
    by (simp add: bin_labels_def)
qed

text \<open>An instance of C4, example 6 of the specification: retention times 10, 30, 90 with
  intensities 5, 5, 10; the range from 40 to 60 holds no point and has the sum 0.\<close>

theorem C4_composition_buckets_witness:
  "intensity_sum [Some 10, Some 30, Some 90] [Some 5, Some 5, Some 10] =
     [(''0-20 min'', 5), (''20-40 min'', 5), (''40-60 min'', 0), (''60-80 min'', 0),
      (''80+ min'', 10)]
   \<and> \<not> list_ex (in_range 40 (Fin 60)) [Some 10, Some 30, Some 90]
   \<and> spec_bucket_sum 40 (Fin 60) [Some 10, Some 30, Some 90] [Some 5, Some 5, Some 10] = 0"
proof -
  have h: "\<not> list_ex (in_range 40 (Fin 60)) [Some 10, Some 30, Some 90]"
    by (simp add: in_range_def)
  have v: "spec_bucket_sum 0 (Fin 20) [Some 10, Some 30, Some 90] [Some 5, Some 5, Some 10] = 5"
     "spec_bucket_sum 20 (Fin 40) [Some 10, Some 30, Some 90] [Some 5, Some 5, Some 10] = 5"
     "spec_bucket_sum 60 (Fin 80) [Some 10, Some 30, Some 90] [Some 5, Some 5, Some 10] = 0"
     "spec_bucket_sum 80 np_inf [Some 10, Some 30, Some 90] [Some 5, Some 5, Some 10] = 10"
    by (simp_all add: spec_bucket_sum_def in_range_def series_sum_def)
  from C4_composition_buckets[of "[Some 10, Some 30, Some 90]" "[Some 5, Some 5, Some 10]" "''t''" 40 "Fin 60"]
  show ?thesis using h v by simp
qed


lemma column_has_number: "column k data = Inr cs \<Longrightarrow> dropna cs \<noteq> []"
proof -
  have "list_ex (\<lambda>r. r k \<noteq> None) rs \<Longrightarrow> dropna (map (\<lambda>r. r k) rs) \<noteq> []" for rs :: peaklist
  proof (induction rs)
    case Nil then show ?case by simp
  next
    case (Cons r rs) then show ?case by (cases "r k") auto
  qed
  then show "column k data = Inr cs \<Longrightarrow> dropna cs \<noteq> []"
    by (auto simp: column_def has_column_def split: if_splits)
qed



subsection \<open>The loop over the samples\<close>

lemma column_Inr: "has_column k data \<Longrightarrow> column k data = Inr (map (\<lambda>r. r k) data)"
  by (simp add: column_def)

lemma column_Inl: "\<not> has_column k data \<Longrightarrow> column k data = Inl (KeyError k)"
  by (simp add: column_def)

lemma engine_well_formed:
  assumes "has_column ''rt'' data" and "has_column ''intensity'' data" and "0 < w"
  shows "\<exists>line. engine data w =
           Inr (line, intensity_sum (map (\<lambda>r. r ''rt'') data) (map (\<lambda>r. r ''intensity'') data))"
proof -
  have "dropna (map (\<lambda>r. r ''rt'') data) \<noteq> []"
    by (rule column_has_number[OF column_Inr[OF assms(1)]])
  moreover have "w \<noteq> 0" using assms(3) by simp
  ultimately obtain edges where "bin_edges (map (\<lambda>r. r ''rt'') data) w = Inr edges"
    using bin_edges_Inr by blast
  then show ?thesis
    by (simp add: engine_def column_Inr assms(1,2))
qed

lemma engine_KeyError:
  "\<not> has_column ''rt'' data \<Longrightarrow> engine data w = Inl (KeyError ''rt'')"
  "has_column ''rt'' data \<Longrightarrow> \<not> has_column ''intensity'' data
     \<Longrightarrow> engine data w = Inl (KeyError ''intensity'')"
  by (simp_all add: engine_def column_Inr column_Inl)

lemma process_sample_warning:
  assumes "status_code (get f m) \<noteq> 200"
  shows "process_sample cat get m w st f
           = Inr (st\<lparr>warnings := warnings st @ [FetchFailed f (status_code (get f m))]\<rparr>)"
  using assms by (simp add: process_sample_def)

lemma process_sample_well_formed:
  assumes "status_code (get f m) = 200" and "well_formed (get f m)" and "0 < w"
  shows "\<exists>tr p. process_sample cat get m w st f
           = Inr (st\<lparr>fig := fig st @ [tr], pie_charts := pie_charts st @ [p]\<rparr>)
         \<and> scatter_name tr = title cat f \<and> pie_title p = title cat f"
proof -
  from assms(2) obtain data where b: "body (get f m) = Some data"
    and c: "has_column ''rt'' data" "has_column ''intensity'' data"
    by (auto simp: well_formed_def split: option.splits)
  from engine_well_formed[OF c assms(3)] obtain line buckets
    where e: "engine data w = Inr (line, buckets)" by blast
  have "process_sample cat get m w st f
           = Inr (st\<lparr>fig := fig st @ [scatter_trace (title cat f) line],
                    pie_charts := pie_charts st @ [pie_chart (title cat f) buckets]\<rparr>)"
    using assms(1) b e by (simp add: process_sample_def json_def)
  moreover have "scatter_name (scatter_trace (title cat f) line) = title cat f"
    by (simp add: scatter_trace_def)
  moreover have "pie_title (pie_chart (title cat f) buckets) = title cat f"
    by (simp add: pie_chart_def)
  ultimately show ?thesis by blast
qed

lemma for_loop_append:
  "for_loop step st (xs @ ys) =
     (case for_loop step st xs of Inl e \<Rightarrow> Inl e | Inr st' \<Rightarrow> for_loop step st' ys)"
  by (induction xs arbitrary: st) (auto split: sum.splits)

lemma for_loop_well_formed:
  assumes "0 < w"
    and "list_all (\<lambda>f. status_code (get f m) = 200 \<longrightarrow> well_formed (get f m)) fids"
  shows "\<exists>traces pies. for_loop (process_sample cat get m w) st fids
           = Inr (st\<lparr>fig := fig st @ traces, pie_charts := pie_charts st @ pies,
                    warnings := warnings st @ fetch_warnings get m fids\<rparr>)
         \<and> map scatter_name traces = map (title cat) (fetched get m fids)
         \<and> map pie_title pies = map (title cat) (fetched get m fids)"
  using assms(2)
proof (induction fids arbitrary: st)
  case Nil
  show ?case by (simp add: fetch_warnings_def fetched_def)
next
  case (Cons f fids)
  from Cons.prems have rest: "list_all (\<lambda>f. status_code (get f m) = 200 \<longrightarrow> well_formed (get f m)) fids"
    and hd: "status_code (get f m) = 200 \<longrightarrow> well_formed (get f m)" by simp_all
  show ?case
  proof (cases "status_code (get f m) = 200")
    case True
    with hd have wf: "well_formed (get f m)" by simp
    from process_sample_well_formed[where get=get and f=f and m=m, OF True wf assms(1), of cat st] obtain tr p where
      step: "process_sample cat get m w st f
           = Inr (st\<lparr>fig := fig st @ [tr], pie_charts := pie_charts st @ [p]\<rparr>)"
      and names: "scatter_name tr = title cat f" "pie_title p = title cat f" by blast
    from Cons.IH[OF rest, of "st\<lparr>fig := fig st @ [tr], pie_charts := pie_charts st @ [p]\<rparr>"]
    obtain traces pies where
      loop: "for_loop (process_sample cat get m w)
               (st\<lparr>fig := fig st @ [tr], pie_charts := pie_charts st @ [p]\<rparr>) fids
           = Inr (st\<lparr>fig := fig st @ tr # traces, pie_charts := pie_charts st @ p # pies,
                    warnings := warnings st @ fetch_warnings get m fids\<rparr>)"
      and ns: "map scatter_name traces = map (title cat) (fetched get m fids)"
         "map pie_title pies = map (title cat) (fetched get m fids)"
      by auto
    have "for_loop (process_sample cat get m w) st (f # fids)
           = Inr (st\<lparr>fig := fig st @ (tr # traces), pie_charts := pie_charts st @ (p # pies),
                    warnings := warnings st @ fetch_warnings get m (f # fids)\<rparr>)"
      using step loop True by (simp add: fetch_warnings_def)
    moreover have "map scatter_name (tr # traces) = map (title cat) (fetched get m (f # fids))"
      "map pie_title (p # pies) = map (title cat) (fetched get m (f # fids))"
      using names ns True by (simp_all add: fetched_def)
    ultimately show ?thesis by blast
  next
    case False
    from Cons.IH[OF rest,
        of "st\<lparr>warnings := warnings st @ [FetchFailed f (status_code (get f m))]\<rparr>"]
    obtain traces pies where
      loop: "for_loop (process_sample cat get m w)
               (st\<lparr>warnings := warnings st @ [FetchFailed f (status_code (get f m))]\<rparr>) fids
           = Inr (st\<lparr>fig := fig st @ traces, pie_charts := pie_charts st @ pies,
                    warnings := warnings st @ FetchFailed f (status_code (get f m))
                       # fetch_warnings get m fids\<rparr>)"
      and ns: "map scatter_name traces = map (title cat) (fetched get m fids)"
         "map pie_title pies = map (title cat) (fetched get m fids)"
      by auto
    have "for_loop (process_sample cat get m w) st (f # fids)
           = Inr (st\<lparr>fig := fig st @ traces, pie_charts := pie_charts st @ pies,
                    warnings := warnings st @ fetch_warnings get m (f # fids)\<rparr>)"
      using process_sample_warning[where get=get and f=f and m=m, OF False] loop False by (simp add: fetch_warnings_def)
    moreover have "map scatter_name traces = map (title cat) (fetched get m (f # fids))"
      "map pie_title pies = map (title cat) (fetched get m (f # fids))"
      using ns False by (simp_all add: fetched_def)
    ultimately show ?thesis by blast
  qed
qed

text \<open>
  Claim C7. A sample whose response has a status other than 200 (every non-success status is
  one) gets the warning of line 150 with its id and its status, adds nothing to the line
  chart and to the pie charts, and the loop goes on with the remaining samples. For a batch in
  which every response of status 200 has both columns and the width is positive, the page
  shows one line series and one pie chart for each sample of status 200, in the order of the
  loop, and exactly the warnings of the other samples.
\<close>

theorem C7_failed_fetch:
  "(status_code (get f m) \<noteq> 200 \<longrightarrow>
      process_sample cat get m w st f
        = Inr (st\<lparr>warnings := warnings st @ [FetchFailed f (status_code (get f m))]\<rparr>)
      \<and> for_loop (process_sample cat get m w) st (f # rest)
        = for_loop (process_sample cat get m w)
            (st\<lparr>warnings := warnings st @ [FetchFailed f (status_code (get f m))]\<rparr>) rest)
   \<and> (0 < w \<and> list_all (\<lambda>f. status_code (get f m) = 200 \<longrightarrow> well_formed (get f m)) fids \<longrightarrow>
      (\<exists>traces pies.
         confirm cat get m w fids = Rendered traces pies (fetch_warnings get m fids)
         \<and> map scatter_name traces = map (title cat) (fetched get m fids)
         \<and> map pie_title pies = map (title cat) (fetched get m fids)))"
proof (intro conjI impI)
  assume ne: "status_code (get f m) \<noteq> 200"
  show step: "process_sample cat get m w st f
        = Inr (st\<lparr>warnings := warnings st @ [FetchFailed f (status_code (get f m))]\<rparr>)"
    by (rule process_sample_warning[where get=get and f=f and m=m, OF ne])
  show "for_loop (process_sample cat get m w) st (f # rest)
        = for_loop (process_sample cat get m w)
            (st\<lparr>warnings := warnings st @ [FetchFailed f (status_code (get f m))]\<rparr>) rest"
    by (simp add: step)
next
  assume a: "0 < w \<and> list_all (\<lambda>f. status_code (get f m) = 200 \<longrightarrow> well_formed (get f m)) fids"
  then have w: "0 < w"
    and ok: "list_all (\<lambda>f. status_code (get f m) = 200 \<longrightarrow> well_formed (get f m)) fids"
    by simp_all
  from for_loop_well_formed[where get=get and m=m, OF w ok,
      of cat "\<lparr>fig = [], pie_charts = [], warnings = []\<rparr>"]
  obtain traces pies where
    loop: "for_loop (process_sample cat get m w) \<lparr>fig = [], pie_charts = [], warnings = []\<rparr> fids
           = Inr \<lparr>fig = traces, pie_charts = pies, warnings = fetch_warnings get m fids\<rparr>"
    and ns: "map scatter_name traces = map (title cat) (fetched get m fids)"
      "map pie_title pies = map (title cat) (fetched get m fids)"
    by auto
  have "confirm cat get m w fids = Rendered traces pies (fetch_warnings get m fids)"
    by (simp add: confirm_def loop)
  with ns show "\<exists>traces pies.
         confirm cat get m w fids = Rendered traces pies (fetch_warnings get m fids)
         \<and> map scatter_name traces = map (title cat) (fetched get m fids)
         \<and> map pie_title pies = map (title cat) (fetched get m fids)" by blast
qed

text \<open>An instance of C7, example 7 of the specification: three samples, the second answers
  with status 500; the page shows two line series, two pie charts and the one warning.\<close>

theorem C7_failed_fetch_witness:
  "status_code ((\<lambda>f m. if f = ''s2'' then \<lparr>status_code = 500, body = None\<rparr>
                  else \<lparr>status_code = 200,
                        body = Some [[''rt'' \<mapsto> 0, ''intensity'' \<mapsto> 3],
                                     [''rt'' \<mapsto> 1, ''intensity'' \<mapsto> 5]]\<rparr>) ''s2'' pos) \<noteq> 200
   \<and> (0::real) < 1/5
   \<and> list_all
        (\<lambda>f. status_code ((\<lambda>f m. if f = ''s2'' then \<lparr>status_code = 500, body = None\<rparr>
                  else \<lparr>status_code = 200,
                        body = Some [[''rt'' \<mapsto> 0, ''intensity'' \<mapsto> 3],
                                     [''rt'' \<mapsto> 1, ''intensity'' \<mapsto> 5]]\<rparr>) f pos) = 200 \<longrightarrow>
             well_formed ((\<lambda>f m. if f = ''s2'' then \<lparr>status_code = 500, body = None\<rparr>
                  else \<lparr>status_code = 200,
                        body = Some [[''rt'' \<mapsto> 0, ''intensity'' \<mapsto> 3],
                                     [''rt'' \<mapsto> 1, ''intensity'' \<mapsto> 5]]\<rparr>) f pos))
        [''s1'', ''s2'', ''s3'']
   \<and> (\<exists>traces pies.
        confirm [] (\<lambda>f m. if f = ''s2'' then \<lparr>status_code = 500, body = None\<rparr>
                  else \<lparr>status_code = 200,
                        body = Some [[''rt'' \<mapsto> 0, ''intensity'' \<mapsto> 3],
                                     [''rt'' \<mapsto> 1, ''intensity'' \<mapsto> 5]]\<rparr>)
          pos (1/5) [''s1'', ''s2'', ''s3'']
          = Rendered traces pies [FetchFailed ''s2'' 500]
        \<and> length traces = 2 \<and> length pies = 2)"
proof -
  let ?get = "\<lambda>(f::string) (m::detection_mode). if f = ''s2'' then \<lparr>status_code = 500, body = None\<rparr>
                  else \<lparr>status_code = 200,
                        body = Some [[''rt'' \<mapsto> (0::real), ''intensity'' \<mapsto> 3],
                                     [''rt'' \<mapsto> 1, ''intensity'' \<mapsto> 5]]\<rparr>"
  have h1: "status_code (?get ''s2'' pos) \<noteq> 200" by simp
  have h2: "(0::real) < 1/5" by simp
  have h3: "list_all (\<lambda>f. status_code (?get f pos) = 200 \<longrightarrow> well_formed (?get f pos))
              [''s1'', ''s2'', ''s3'']"
    by (simp add: well_formed_def has_column_def)
  have fw: "fetch_warnings ?get pos [''s1'', ''s2'', ''s3''] = [FetchFailed ''s2'' 500]"
    by (simp add: fetch_warnings_def)
  have ft: "fetched ?get pos [''s1'', ''s2'', ''s3''] = [''s1'', ''s3'']"
    by (simp add: fetched_def)
  from C7_failed_fetch[of ?get "''s2''" pos "[]" "1/5" _ _ "[''s1'', ''s2'', ''s3'']"] h2 h3
  obtain traces pies where
    c: "confirm [] ?get pos (1/5) [''s1'', ''s2'', ''s3'']
          = Rendered traces pies (fetch_warnings ?get pos [''s1'', ''s2'', ''s3''])"
    and n: "map scatter_name traces = map (title []) (fetched ?get pos [''s1'', ''s2'', ''s3''])"
      "map pie_title pies = map (title []) (fetched ?get pos [''s1'', ''s2'', ''s3''])"
    by blast
  from n have "length (map scatter_name traces) = 2" "length (map pie_title pies) = 2"
    unfolding ft by simp_all
  then have l: "length traces = 2" "length pies = 2" by simp_all
  from c l h1 h2 h3 show ?thesis unfolding fw by blast
qed

text \<open>
  Claim C8 says that a payload without the required fields is reported like a failed fetch
  and that the batch goes on. The script has no handler for what lines 101 and 102 raise:
  with two selected samples of status 200, the first of which has no \<^verbatim>\<open>rt\<close> field, the
  run ends with the uncaught KeyError, without a warning, without a chart, and the second
  sample is never processed.
\<close>

theorem C8_malformed_payload_counterexample:
  "confirm []
     (\<lambda>f m. if f = ''s1'' then \<lparr>status_code = 200, body = Some [[''intensity'' \<mapsto> 1]]\<rparr>
             else \<lparr>status_code = 200,
                   body = Some [[''rt'' \<mapsto> 0, ''intensity'' \<mapsto> 3],
                                [''rt'' \<mapsto> 1, ''intensity'' \<mapsto> 5]]\<rparr>)
     pos (1/5) [''s1'', ''s2'']
   = Uncaught (KeyError ''rt'') []"
  by code_simp

text \<open>
  Claim C8 as amended: when the samples before \<open>f\<close> are processed without an exception and
  the payload of \<open>f\<close> (status 200) has no record with the field \<^verbatim>\<open>rt\<close>, or none with the
  field \<^verbatim>\<open>intensity\<close>, the run ends with the uncaught KeyError of the first missing column:
  no chart is shown, no warning is issued for \<open>f\<close>, the samples after \<open>f\<close> are not processed,
  and only the warnings of the samples before \<open>f\<close> are on the page.
\<close>

theorem C8_missing_field:
  assumes "0 < w"
    and "list_all (\<lambda>f. status_code (get f m) = 200 \<longrightarrow> well_formed (get f m)) before"
    and "status_code (get f m) = 200"
    and "body (get f m) = Some data"
    and "\<not> has_column ''rt'' data \<or> \<not> has_column ''intensity'' data"
  shows "confirm cat get m w (before @ f # rest)
           = Uncaught (KeyError (if has_column ''rt'' data then ''intensity'' else ''rt''))
               (fetch_warnings get m before)"
proof -
  let ?k = "if has_column ''rt'' data then ''intensity'' else ''rt''"
  have e: "engine data w = Inl (KeyError ?k)"
    using assms(5) engine_KeyError[of data w] by auto
  have step: "process_sample cat get m w st f = Inl (KeyError ?k)" for st
    using assms(3,4) e by (simp add: process_sample_def json_def)
  from for_loop_well_formed[where get=get and m=m, OF assms(1,2),
      of cat "\<lparr>fig = [], pie_charts = [], warnings = []\<rparr>"]
  obtain traces pies where
    loop: "for_loop (process_sample cat get m w) \<lparr>fig = [], pie_charts = [], warnings = []\<rparr> before
           = Inr \<lparr>fig = traces, pie_charts = pies, warnings = fetch_warnings get m before\<rparr>"
    by auto
  show ?thesis
    unfolding confirm_def for_loop_append loop by (simp add: step)
qed

text \<open>An instance of the amended C8: the first sample answers 404, the second has no
  intensity field, the third is never reached.\<close>

theorem C8_missing_field_witness:
  "confirm []
     (\<lambda>f m. if f = ''s0'' then \<lparr>status_code = 404, body = None\<rparr>
             else if f = ''s1'' then \<lparr>status_code = 200, body = Some [[''rt'' \<mapsto> 1]]\<rparr>
             else \<lparr>status_code = 200,
                   body = Some [[''rt'' \<mapsto> 0, ''intensity'' \<mapsto> 3],
                                [''rt'' \<mapsto> 1, ''intensity'' \<mapsto> 5]]\<rparr>)
     neg (1/5) ([''s0''] @ ''s1'' # [''s2''])
   = Uncaught (KeyError ''intensity'') [FetchFailed ''s0'' 404]"
proof -
  let ?get = "\<lambda>(f::string) (m::detection_mode).
             if f = ''s0'' then \<lparr>status_code = 404, body = None\<rparr>
             else if f = ''s1'' then \<lparr>status_code = 200, body = Some [[''rt'' \<mapsto> (1::real)]]\<rparr>
             else \<lparr>status_code = 200,
                   body = Some [[''rt'' \<mapsto> 0, ''intensity'' \<mapsto> 3],
                                [''rt'' \<mapsto> 1, ''intensity'' \<mapsto> 5]]\<rparr>"
  have h1: "(0::real) < 1/5" by simp
  have h2: "list_all (\<lambda>f. status_code (?get f neg) = 200 \<longrightarrow> well_formed (?get f neg)) [''s0'']"
    by simp
  have h3: "status_code (?get ''s1'' neg) = 200" by simp
  have h4: "body (?get ''s1'' neg) = Some [[''rt'' \<mapsto> 1]]" by simp
  have h5: "\<not> has_column ''rt'' [[''rt'' \<mapsto> (1::real)]] \<or> \<not> has_column ''intensity'' [[''rt'' \<mapsto> (1::real)]]"
    by (simp add: has_column_def)
  have c: "has_column ''rt'' [[''rt'' \<mapsto> (1::real)]]" by (simp add: has_column_def)
  have fw: "fetch_warnings ?get neg [''s0''] = [FetchFailed ''s0'' 404]"
    by (simp add: fetch_warnings_def)
  from C8_missing_field[where get="?get" and m=neg and f="''s1''", OF h1 h2 h3 h4 h5, of "[]" "[''s2'']"]
  show ?thesis unfolding fw using c by simp
qed

end
